theory Spec2Isabelle
  imports Complex_Main
begin

section \<open>K-means clustering: the command-line program \<open>kmeans.py\<close>\<close>

text \<open>
  The development embeds \<open>kmeans.py\<close> function by function. Both copies of the file in
  the repository have the same code (they differ in comments only), so one embedding
  covers both.

  Conventions of the embedding:
  \<^item> A Python \<open>float\<close> is modelled by a real number. Rounding, overflow, infinities and
    NaN of the machine type are outside the model; \<open>x ** 0.5\<close> on a sum of squares is
    the real square root.
  \<^item> An exception that the source does not catch is a value \<open>Inl e\<close> of a sum type.
  \<^item> A function that prints a notice and returns \<open>None\<close> returns the notice (or
    \<open>None\<close> where only one notice is possible).
  \<^item> Standard output is a list of lines; a centroid line carries the coordinates
    themselves, the decimal formatting \<open>.4f\<close> is not modelled.
\<close>

subsection \<open>Exceptions, notices and output\<close>

datatype pyexc = ValueError | IndexError | ZeroDivisionError | UnboundLocalError

text \<open>
  The three notices of the program: \<open>"An Error Has Occurred"\<close>,
  \<open>"Invalid number of clusters!"\<close> and \<open>"Invalid maximum iteration!"\<close>.
\<close>

datatype notice = GenericError | InvalidClusters | InvalidIteration

datatype out_line = Notice notice | CentroidLine "real list"

type_synonym vector = "real list"

subsection \<open>Constants\<close>

definition MIN_K :: int where "MIN_K = 1"

definition MIN_ITER :: int where "MIN_ITER = 1"

definition MAX_ITER :: int where "MAX_ITER = 1000"

definition DEFAULT_ITER :: int where "DEFAULT_ITER = 400"

text \<open>The default value of the parameter \<open>eps\<close> of \<open>kmeans_clustering\<close>.\<close>

definition DEFAULT_EPS :: real where "DEFAULT_EPS = 1 / 1000"

subsection \<open>The builtins \<open>str.strip\<close>, \<open>str.split\<close> and \<open>int\<close>\<close>

text \<open>
  Strings are lists of 8-bit characters, read as ASCII. The whitespace characters are
  the ASCII characters for which \<open>str.isspace\<close> holds.
\<close>

definition py_isspace :: "char \<Rightarrow> bool" where
  "py_isspace c = (c \<in> set [CHR 0x09, CHR 0x0A, CHR 0x0B, CHR 0x0C, CHR 0x0D,
                            CHR 0x1C, CHR 0x1D, CHR 0x1E, CHR 0x1F, CHR 0x20])"

definition strip :: "string \<Rightarrow> string" where
  "strip s = rev (dropWhile py_isspace (rev (dropWhile py_isspace s)))"

fun split_comma :: "string \<Rightarrow> string list" where
  "split_comma [] = [[]]"
| "split_comma (c # cs) =
     (if c = CHR '','' then [] # split_comma cs
      else (case split_comma cs of
              [] \<Rightarrow> [[c]]
            | t # ts \<Rightarrow> (c # t) # ts))"

definition digit_of :: "char \<Rightarrow> nat option" where
  "digit_of =
     map_of [(CHR ''0'', 0), (CHR ''1'', 1), (CHR ''2'', 2), (CHR ''3'', 3), (CHR ''4'', 4),
             (CHR ''5'', 5), (CHR ''6'', 6), (CHR ''7'', 7), (CHR ''8'', 8), (CHR ''9'', 9)]"

text \<open>
  The digits of a decimal integer literal after its first digit has been checked: digits,
  any two of which may be separated by one underscore. The accumulator is the value read
  so far.
\<close>

fun int_digits :: "nat \<Rightarrow> string \<Rightarrow> nat option" where
  "int_digits acc [] = Some acc"
| "int_digits acc [c] =
     (case digit_of c of None \<Rightarrow> None | Some d \<Rightarrow> Some (10 * acc + d))"
| "int_digits acc (c # c' # cs) =
     (case digit_of c of
        Some d \<Rightarrow> int_digits (10 * acc + d) (c' # cs)
      | None \<Rightarrow>
          if c = CHR ''_'' \<and> digit_of c' \<noteq> None then int_digits acc (c' # cs)
          else None)"

definition int_literal :: "string \<Rightarrow> nat option" where
  "int_literal s =
     (case s of
        [] \<Rightarrow> None
      | c # cs \<Rightarrow> if digit_of c = None then None else int_digits 0 s)"

text \<open>
  \<open>int(s)\<close> for a string: surrounding whitespace is dropped, one sign is allowed, and
  the rest must be a decimal integer literal. \<open>None\<close> stands for \<open>ValueError\<close>. A
  decimal point, an exponent or any other character makes the string invalid, so
  \<open>int("3.0")\<close> raises.
\<close>

definition py_int :: "string \<Rightarrow> int option" where
  "py_int s =
     (case strip s of
        [] \<Rightarrow> None
      | c # cs \<Rightarrow>
          if c = CHR ''-'' then map_option (\<lambda>n. - int n) (int_literal cs)
          else if c = CHR ''+'' then map_option int (int_literal cs)
          else map_option int (int_literal (c # cs)))"

subsection \<open>Command-line arguments\<close>

text \<open>
  \<open>args\<close> is \<open>sys.argv[1:]\<close>. The result \<open>Inl n\<close> stands for printing the notice
  \<open>n\<close> and returning \<open>(None, None, None)\<close>; \<open>Inr (k, max_iter, file_arg)\<close> is the
  returned triple, with \<open>file_arg = None\<close> where the source returns \<open>None\<close> for it.
\<close>

definition parse_command_line_args :: "string list \<Rightarrow> notice + (int \<times> int \<times> string option)" where
  "parse_command_line_args args =
     (if length args = 0 then Inl GenericError
      else
        (case py_int (args ! 0) of
           None \<Rightarrow> Inl GenericError
         | Some k \<Rightarrow>
             if k \<le> MIN_K then Inl InvalidClusters
             else if length args = 1 then Inr (k, DEFAULT_ITER, None)
             else if length args = 2 then Inr (k, DEFAULT_ITER, Some (args ! 1))
             else if length args = 3 then
               (case py_int (args ! 1) of
                  None \<Rightarrow> Inl GenericError
                | Some max_iter \<Rightarrow>
                    if max_iter \<le> MIN_ITER \<or> max_iter \<ge> MAX_ITER then Inl InvalidIteration
                    else Inr (k, max_iter, Some (args ! 2)))
             else Inl GenericError))"

subsection \<open>Reading the vectors\<close>

text \<open>
  What the program reads and the builtin \<open>float\<close> are parameters of the model:
  \<open>open_file name\<close> is the list of lines of the file (\<open>None\<close> if opening or reading
  it raises), \<open>stdin_lines\<close> the lines of standard input, and \<open>py_float s\<close> the value
  of \<open>float(s)\<close> (\<open>None\<close> for \<open>ValueError\<close>).
\<close>

record env =
  open_file :: "string \<Rightarrow> string list option"
  stdin_lines :: "string list option"
  py_float :: "string \<Rightarrow> real option"

fun parse_lines :: "(string \<Rightarrow> real option) \<Rightarrow> string list \<Rightarrow> vector list option" where
  "parse_lines fl [] = Some []"
| "parse_lines fl (l # ls) =
     (let line = strip l in
      if line \<noteq> [] then
        (case those (map fl (split_comma line)) of
           None \<Rightarrow> None
         | Some vector \<Rightarrow> map_option ((#) vector) (parse_lines fl ls))
      else parse_lines fl ls)"

text \<open>
  \<open>None\<close> stands for printing \<open>"An Error Has Occurred"\<close> and returning \<open>None\<close>. The
  test \<open>if file_arg:\<close> sends both \<open>None\<close> and the empty string to standard input.
\<close>

definition read_vectors :: "env \<Rightarrow> string option \<Rightarrow> vector list option" where
  "read_vectors e file_arg =
     (case (case file_arg of
              None \<Rightarrow> stdin_lines e
            | Some f \<Rightarrow> if f \<noteq> [] then open_file e f else stdin_lines e) of
        None \<Rightarrow> None
      | Some lines \<Rightarrow>
          (case parse_lines (py_float e) lines of
             None \<Rightarrow> None
           | Some vectors \<Rightarrow> if vectors = [] then None else Some vectors))"

subsection \<open>Validation and initialisation\<close>

text \<open>\<open>False\<close> stands for printing \<open>"An Error Has Occurred"\<close> and returning \<open>False\<close>.\<close>

definition validate_vector_dimensions :: "vector list \<Rightarrow> bool" where
  "validate_vector_dimensions vectors =
     (if vectors = [] then False
      else list_all (\<lambda>vector. length vector = length (vectors ! 0)) vectors)"

text \<open>
  \<open>None\<close> stands for printing \<open>"Invalid number of clusters!"\<close> and returning
  \<open>(None, None)\<close>. The second component of the source's result is \<open>k\<close> itself.
  \<open>range(k)\<close> is empty for a negative \<open>k\<close>.
\<close>

definition initialize_centroids :: "vector list \<Rightarrow> int \<Rightarrow> vector list option" where
  "initialize_centroids vectors k =
     (if k \<ge> int (length vectors) then None
      else Some (map (\<lambda>i. vectors ! i) [0..<nat k]))"

subsection \<open>Distance and assignment\<close>

text \<open>A list comprehension over a function that may raise.\<close>

fun mapE :: "('a \<Rightarrow> 'e + 'b) \<Rightarrow> 'a list \<Rightarrow> 'e + 'b list" where
  "mapE f [] = Inr []"
| "mapE f (x # xs) =
     (case f x of
        Inl e \<Rightarrow> Inl e
      | Inr y \<Rightarrow> (case mapE f xs of Inl e \<Rightarrow> Inl e | Inr ys \<Rightarrow> Inr (y # ys)))"

text \<open>
  The value of the distance where every index is in range, and the function itself:
  \<open>centroid[i]\<close> raises for an \<open>i < len(point)\<close> exactly when the centroid is shorter
  than the point.
\<close>

definition distance_value :: "vector \<Rightarrow> vector \<Rightarrow> real" where
  "distance_value point centroid =
     sqrt (\<Sum>i\<leftarrow>[0..<length point]. (point ! i - centroid ! i)\<^sup>2)"

definition euclidean_distance :: "vector \<Rightarrow> vector \<Rightarrow> pyexc + real" where
  "euclidean_distance point centroid =
     (if length centroid < length point then Inl IndexError
      else Inr (distance_value point centroid))"

text \<open>
  The builtins \<open>min\<close> (the first of the least elements; \<open>ValueError\<close> on an empty
  list) and \<open>list.index\<close> (the first position of a value; \<open>ValueError\<close> if absent).
\<close>

fun py_min :: "'a::linorder list \<Rightarrow> pyexc + 'a" where
  "py_min [] = Inl ValueError"
| "py_min (x # xs) = Inr (foldl (\<lambda>m y. if y < m then y else m) x xs)"

fun py_index :: "'a list \<Rightarrow> 'a \<Rightarrow> pyexc + nat" where
  "py_index [] v = Inl ValueError"
| "py_index (x # xs) v =
     (if x = v then Inr 0
      else (case py_index xs v of Inl e \<Rightarrow> Inl e | Inr i \<Rightarrow> Inr (Suc i)))"

text \<open>The two lines of the loop body of \<open>assign_clusters\<close> that choose the cluster.\<close>

definition closest_centroid :: "vector \<Rightarrow> vector list \<Rightarrow> pyexc + nat" where
  "closest_centroid vector centroids =
     (case mapE (euclidean_distance vector) centroids of
        Inl e \<Rightarrow> Inl e
      | Inr distances \<Rightarrow>
          (case py_min distances of
             Inl e \<Rightarrow> Inl e
           | Inr m \<Rightarrow> py_index distances m))"

fun assign_loop :: "vector list \<Rightarrow> vector list \<Rightarrow> vector list list \<Rightarrow> pyexc + vector list list" where
  "assign_loop [] centroids clusters = Inr clusters"
| "assign_loop (vector # vectors) centroids clusters =
     (case closest_centroid vector centroids of
        Inl e \<Rightarrow> Inl e
      | Inr c \<Rightarrow>
          if c < length clusters
          then assign_loop vectors centroids (clusters[c := clusters ! c @ [vector]])
          else Inl IndexError)"

definition assign_clusters :: "vector list \<Rightarrow> vector list \<Rightarrow> pyexc + vector list list" where
  "assign_clusters vectors centroids =
     assign_loop vectors centroids (replicate (length centroids) [])"

subsection \<open>Centroid update\<close>

text \<open>One pass of \<open>for i in range(dim): new_centroid[i] += point[i]\<close>.\<close>

definition add_point :: "vector \<Rightarrow> vector \<Rightarrow> pyexc + vector" where
  "add_point new_centroid point =
     (if length point < length new_centroid then Inl IndexError
      else Inr (map (\<lambda>i. new_centroid ! i + point ! i) [0..<length new_centroid]))"

fun sum_points :: "vector \<Rightarrow> vector list \<Rightarrow> pyexc + vector" where
  "sum_points new_centroid [] = Inr new_centroid"
| "sum_points new_centroid (point # points) =
     (case add_point new_centroid point of
        Inl e \<Rightarrow> Inl e
      | Inr nc \<Rightarrow> sum_points nc points)"

definition py_div :: "real \<Rightarrow> nat \<Rightarrow> pyexc + real" where
  "py_div x n = (if n = 0 then Inl ZeroDivisionError else Inr (x / real n))"

text \<open>
  The new centroid of a bucket: \<open>dim\<close> is the length of the first member, the sums
  start at \<open>[0] * dim\<close>, and every sum is divided by the number of members.
\<close>

fun cluster_mean :: "vector list \<Rightarrow> pyexc + vector" where
  "cluster_mean [] = Inl IndexError"
| "cluster_mean (p # ps) =
     (case sum_points (replicate (length p) 0) (p # ps) of
        Inl e \<Rightarrow> Inl e
      | Inr totals \<Rightarrow> mapE (\<lambda>x. py_div x (length (p # ps))) totals)"

text \<open>
  The loop \<open>for j in range(k)\<close> of \<open>update_centroids\<close>, over the list of indices still
  to visit, with \<open>new_centroids\<close> and \<open>flag\<close> as its state.
\<close>

fun update_loop ::
  "nat list \<Rightarrow> vector list list \<Rightarrow> vector list \<Rightarrow> real \<Rightarrow> vector list \<Rightarrow> bool
     \<Rightarrow> pyexc + (vector list \<times> bool)" where
  "update_loop [] clusters centroids eps new_centroids flag = Inr (new_centroids, flag)"
| "update_loop (j # js) clusters centroids eps new_centroids flag =
     (if length clusters \<le> j \<or> length centroids \<le> j then Inl IndexError
      else if clusters ! j \<noteq> [] then
        (case cluster_mean (clusters ! j) of
           Inl e \<Rightarrow> Inl e
         | Inr new_centroid \<Rightarrow>
             (case euclidean_distance (centroids ! j) new_centroid of
                Inl e \<Rightarrow> Inl e
              | Inr d \<Rightarrow>
                  update_loop js clusters centroids eps (new_centroids @ [new_centroid])
                    (if d > eps then False else flag)))
      else update_loop js clusters centroids eps (new_centroids @ [centroids ! j]) flag)"

definition update_centroids ::
  "vector list list \<Rightarrow> vector list \<Rightarrow> real \<Rightarrow> pyexc + (vector list \<times> bool)" where
  "update_centroids clusters centroids eps =
     update_loop [0..<length centroids] clusters centroids eps [] True"

subsection \<open>The clustering loop\<close>

text \<open>
  The variables of the \<open>while\<close> loop of \<open>kmeans_clustering\<close>. \<open>cur_clusters\<close> is
  \<open>None\<close> as long as the name \<open>clusters\<close> is unbound.
\<close>

record loop_state =
  curr_iter :: int
  converged :: bool
  cur_centroids :: "vector list"
  cur_clusters :: "vector list list option"

definition loop_body :: "vector list \<Rightarrow> real \<Rightarrow> loop_state \<Rightarrow> pyexc + loop_state" where
  "loop_body vectors eps s =
     (case assign_clusters vectors (cur_centroids s) of
        Inl e \<Rightarrow> Inl e
      | Inr clusters \<Rightarrow>
          (case update_centroids clusters (cur_centroids s) eps of
             Inl e \<Rightarrow> Inl e
           | Inr (new_centroids, flag) \<Rightarrow>
               Inr \<lparr>curr_iter = curr_iter s + 1, converged = flag,
                    cur_centroids = new_centroids, cur_clusters = Some clusters\<rparr>))"

function kmeans_loop :: "int \<Rightarrow> vector list \<Rightarrow> real \<Rightarrow> loop_state \<Rightarrow> pyexc + loop_state" where
  "kmeans_loop max_iter vectors eps s =
     (if \<not> converged s \<and> curr_iter s < max_iter then
        (case loop_body vectors eps s of
           Inl e \<Rightarrow> Inl e
         | Inr s' \<Rightarrow> kmeans_loop max_iter vectors eps s')
      else Inr s)"
  by pat_completeness auto

termination
  by (relation "measure (\<lambda>(max_iter, vectors, eps, s). nat (max_iter - curr_iter s))")
     (auto simp: loop_body_def split: sum.splits prod.splits)

declare kmeans_loop.simps [simp del]

text \<open>The state before the first iteration.\<close>

definition initial_state :: "vector list \<Rightarrow> loop_state" where
  "initial_state centroids =
     \<lparr>curr_iter = 0, converged = False, cur_centroids = centroids, cur_clusters = None\<rparr>"

text \<open>
  The result is the printed output together with the returned value (\<open>None\<close> after a
  notice). \<open>print_results\<close> reads the name \<open>clusters\<close> first, which raises if the
  loop body never ran, and then prints one line for every centroid.
\<close>

definition kmeans_clustering ::
  "int \<Rightarrow> int \<Rightarrow> vector list \<Rightarrow> real \<Rightarrow> pyexc + (out_line list \<times> vector list list option)" where
  "kmeans_clustering k max_iter vectors eps =
     (if \<not> validate_vector_dimensions vectors then Inr ([Notice GenericError], None)
      else
        (case initialize_centroids vectors k of
           None \<Rightarrow> Inr ([Notice InvalidClusters], None)
         | Some centroids \<Rightarrow>
             (case kmeans_loop max_iter vectors eps (initial_state centroids) of
                Inl e \<Rightarrow> Inl e
              | Inr s \<Rightarrow>
                  (case cur_clusters s of
                     None \<Rightarrow> Inl UnboundLocalError
                   | Some clusters \<Rightarrow>
                       Inr (map CentroidLine (cur_centroids s), Some clusters)))))"

subsection \<open>The program\<close>

text \<open>
  The result is the exit status and the standard output; \<open>Inl e\<close> is an exception that
  leaves \<open>main\<close>.
\<close>

definition main :: "env \<Rightarrow> string list \<Rightarrow> pyexc + (int \<times> out_line list)" where
  "main e args =
     (case parse_command_line_args args of
        Inl n \<Rightarrow> Inr (1, [Notice n])
      | Inr (k, max_iter, file_arg) \<Rightarrow>
          (case read_vectors e file_arg of
             None \<Rightarrow> Inr (1, [Notice GenericError])
           | Some vectors \<Rightarrow>
               (case kmeans_clustering k max_iter vectors DEFAULT_EPS of
                  Inl exc \<Rightarrow> Inl exc
                | Inr (out, None) \<Rightarrow> Inr (1, out)
                | Inr (out, Some clusters) \<Rightarrow> Inr (0, out))))"

subsection \<open>Notions of the specification\<close>

text \<open>
  The coordinate-wise arithmetic mean of the members of a bucket, in the words of the
  specification: for every coordinate, the sum over the members divided by their number.
\<close>

definition arithmetic_mean :: "vector list \<Rightarrow> vector" where
  "arithmetic_mean members =
     map (\<lambda>i. (\<Sum>p\<leftarrow>members. p ! i) / real (length members)) [0..<length (hd members)]"


text \<open>
  An environment for the examples: no file can be opened, standard input holds the given
  lines, and \<open>float\<close> is evaluated on decimal integer literals only (where it has the
  value of \<open>int\<close>), which is all the examples contain.
\<close>

definition example_env :: "string list \<Rightarrow> env" where
  "example_env input =
     \<lparr>open_file = (\<lambda>name. None), stdin_lines = Some input,
      py_float = (\<lambda>s. map_option real_of_int (py_int s))\<rparr>"

section \<open>Evaluation on concrete inputs\<close>

text \<open>The definitions that a closed term of each part unfolds to.\<close>

lemmas int_eval = py_int_def strip_def py_isspace_def int_literal_def digit_of_def

lemmas engine_eval = assign_clusters_def closest_centroid_def euclidean_distance_def
  distance_value_def update_centroids_def add_point_def py_div_def upt_rec

lemmas read_eval = read_vectors_def example_env_def int_eval

lemma py_int_3: "py_int ''3'' = Some 3"
  by (simp add: int_eval)





text \<open>
  Scenario A of the specification: four vectors of dimension 3 and \<open>k = 2\<close>, read
  from standard input, with the default iteration bound.
\<close>

lemma sqrt_gt_small: "1 / 1000 < sqrt (27 / 4)"
proof -
  have "(1 / 1000 :: real) < 1" by simp
  also have "\<dots> = sqrt 1" by simp
  also have "\<dots> < sqrt (27 / 4)" by (subst real_sqrt_less_iff) simp
  finally show ?thesis .
qed

lemma scenario_A_loop:
  "kmeans_loop 400 [[1, 2, 3], [4, 5, 6], [7, 8, 9], [1, 2, 3]] DEFAULT_EPS
       (initial_state [[1, 2, 3], [4, 5, 6]])
     = Inr \<lparr>curr_iter = 2, converged = True,
            cur_centroids = [[1, 2, 3], [11 / 2, 13 / 2, 15 / 2]],
            cur_clusters = Some [[[1, 2, 3], [1, 2, 3]], [[4, 5, 6], [7, 8, 9]]]\<rparr>"
  using sqrt_gt_small
  by (simp add: kmeans_loop.simps loop_body_def initial_state_def DEFAULT_EPS_def engine_eval
      power2_eq_square)


lemma scenario_A_valid:
  "validate_vector_dimensions [[1, 2, 3], [4, 5, 6], [7, 8, 9], [1, 2, 3]]"
  by (simp add: validate_vector_dimensions_def)

lemma scenario_A_clustering:
  "kmeans_clustering 2 400 [[1, 2, 3], [4, 5, 6], [7, 8, 9], [1, 2, 3]] DEFAULT_EPS
     = Inr ([CentroidLine [1, 2, 3], CentroidLine [11 / 2, 13 / 2, 15 / 2]],
            Some [[[1, 2, 3], [1, 2, 3]], [[4, 5, 6], [7, 8, 9]]])"
  by (simp add: kmeans_clustering_def scenario_A_valid initialize_centroids_def
      scenario_A_loop upt_rec)

lemma scenario_A_read:
  "read_vectors (example_env [''1,2,3'', ''4,5,6'', ''7,8,9'', ''1,2,3'']) None
     = Some [[1, 2, 3], [4, 5, 6], [7, 8, 9], [1, 2, 3]]"
  by (simp add: read_eval)

lemma scenario_A_main:
  "main (example_env [''1,2,3'', ''4,5,6'', ''7,8,9'', ''1,2,3'']) [''2'']
     = Inr (0, [CentroidLine [1, 2, 3], CentroidLine [11 / 2, 13 / 2, 15 / 2]])"
  by (simp add: main_def parse_command_line_args_def int_eval MIN_K_def DEFAULT_ITER_def
      scenario_A_read scenario_A_clustering)

section \<open>Auxiliary facts\<close>

subsection \<open>Builtins\<close>

lemma mapE_Inr: "(\<And>x. x \<in> set xs \<Longrightarrow> f x = Inr (g x)) \<Longrightarrow> mapE f xs = Inr (map g xs)"
  by (induction xs) simp_all

lemma mapE_result:
  "mapE f xs = Inr ys \<Longrightarrow> length ys = length xs \<and> (\<forall>i<length xs. f (xs ! i) = Inr (ys ! i))"
proof (induction xs arbitrary: ys)
  case Nil
  then show ?case by simp
next
  case (Cons x xs)
  from Cons.prems obtain y ys' where y: "f x = Inr y" and ys': "mapE f xs = Inr ys'"
    and ys: "ys = y # ys'"
    by (auto split: sum.splits)
  from Cons.IH [OF ys'] y ys show ?case
    by (auto simp: nth_Cons split: nat.splits)
qed

lemma foldl_min: "foldl (\<lambda>m y. if y < m then y else m) x xs = Min (insert x (set xs))"
  for x :: "'a::linorder"
proof (induction xs arbitrary: x)
  case Nil
  then show ?case by simp
next
  case (Cons y ys)
  have step: "(if y < x then y else x) = min x y"
    by (auto simp: min_def)
  have "Min (insert (min x y) (set ys)) = Min (insert x (insert y (set ys)))"
    by (cases "set ys = {}") (simp_all add: min.assoc)
  with Cons.IH [of "min x y"] step show ?case
    by simp
qed

lemma py_min_result: "py_min xs = Inr m \<Longrightarrow> xs \<noteq> [] \<and> m = Min (set xs)"
  by (cases xs) (simp_all add: foldl_min)


lemma py_index_result:
  "py_index xs v = Inr i \<Longrightarrow> i < length xs \<and> xs ! i = v \<and> (\<forall>j<i. xs ! j \<noteq> v)"
proof (induction xs arbitrary: i)
  case Nil
  then show ?case by simp
next
  case (Cons x xs)
  show ?case
  proof (cases "x = v")
    case True
    with Cons.prems show ?thesis by simp
  next
    case False
    with Cons.prems obtain i' where i': "py_index xs v = Inr i'" and i: "i = Suc i'"
      by (auto split: sum.splits)
    from Cons.IH [OF i'] False i show ?thesis
      by (auto simp: nth_Cons split: nat.splits)
  qed
qed


lemma parse_Inr:
  "parse_command_line_args args = Inr (k, max_iter, file_arg) \<Longrightarrow>
     args \<noteq> [] \<and> py_int (args ! 0) = Some k \<and> 1 < k"
  by (auto simp: parse_command_line_args_def MIN_K_def split: option.splits if_splits)

subsection \<open>Assignment\<close>

lemma euclidean_distance_result:
  "euclidean_distance point centroid = Inr d \<Longrightarrow> d = distance_value point centroid"
  by (simp add: euclidean_distance_def split: if_splits)

lemma euclidean_distance_self: "euclidean_distance c c = Inr 0"
  by (simp add: euclidean_distance_def distance_value_def)

lemma distance_value_nonneg: "0 \<le> distance_value point centroid"
  unfolding distance_value_def
  by (intro real_sqrt_ge_zero sum_list_nonneg) auto

lemma closest_centroid_result:
  assumes "closest_centroid v centroids = Inr c"
  shows "c < length centroids"
    and "\<forall>j<length centroids. euclidean_distance v (centroids ! j) = Inr (distance_value v (centroids ! j))"
    and "\<forall>j<length centroids. distance_value v (centroids ! c) \<le> distance_value v (centroids ! j)"
    and "\<forall>j<c. distance_value v (centroids ! j) \<noteq> distance_value v (centroids ! c)"
proof -
  from assms obtain distances m where ds: "mapE (euclidean_distance v) centroids = Inr distances"
    and m: "py_min distances = Inr m" and c: "py_index distances m = Inr c"
    by (auto simp: closest_centroid_def split: sum.splits)
  from mapE_result [OF ds] have len: "length distances = length centroids"
    and each: "\<forall>j<length centroids. euclidean_distance v (centroids ! j) = Inr (distances ! j)"
    by simp_all
  have val: "\<forall>j<length centroids. distances ! j = distance_value v (centroids ! j)"
    using each euclidean_distance_result by blast
  from py_min_result [OF m] have m_min: "m = Min (set distances)" and ne: "distances \<noteq> []"
    by simp_all
  from py_index_result [OF c] have c_lt: "c < length distances" and c_m: "distances ! c = m"
    and first: "\<forall>j<c. distances ! j \<noteq> m"
    by simp_all
  show "c < length centroids" using c_lt len by simp
  show "\<forall>j<length centroids. euclidean_distance v (centroids ! j) = Inr (distance_value v (centroids ! j))"
    using each val by simp
  show "\<forall>j<length centroids. distance_value v (centroids ! c) \<le> distance_value v (centroids ! j)"
  proof (intro allI impI)
    fix j assume j: "j < length centroids"
    then have "distances ! j \<in> set distances" using len by simp
    then have "m \<le> distances ! j" using m_min by simp
    with j c_lt len c_m val show "distance_value v (centroids ! c) \<le> distance_value v (centroids ! j)"
      by simp
  qed
  show "\<forall>j<c. distance_value v (centroids ! j) \<noteq> distance_value v (centroids ! c)"
    using first c_m c_lt len val by simp
qed


text \<open>An index that is minimal and first is the one chosen.\<close>

lemma closest_centroid_unique:
  assumes "closest_centroid v centroids = Inr c"
    and "i < length centroids"
    and "\<forall>j<length centroids. distance_value v (centroids ! i) \<le> distance_value v (centroids ! j)"
    and "\<forall>j<i. distance_value v (centroids ! j) \<noteq> distance_value v (centroids ! i)"
  shows "c = i"
proof -
  note r = closest_centroid_result [OF assms(1)]
  have eq: "distance_value v (centroids ! c) = distance_value v (centroids ! i)"
    using r(1) r(3) assms(2) assms(3) by (meson order_antisym)
  show ?thesis
  proof (rule ccontr)
    assume "c \<noteq> i"
    then consider "c < i" | "i < c" by linarith
    then show False
    proof cases
      case 1
      with assms(4) eq show False by auto
    next
      case 2
      with r(4) eq show False by auto
    qed
  qed
qed

lemma assign_loop_result:
  "assign_loop vectors centroids clusters = Inr clusters' \<Longrightarrow>
     length clusters' = length clusters
     \<and> (\<forall>v\<in>set vectors. \<exists>c<length clusters. closest_centroid v centroids = Inr c)
     \<and> (\<forall>j<length clusters.
           clusters' ! j = clusters ! j @ filter (\<lambda>v. closest_centroid v centroids = Inr j) vectors)"
proof (induction vectors arbitrary: clusters)
  case Nil
  then show ?case by simp
next
  case (Cons v vs)
  from Cons.prems obtain c where c: "closest_centroid v centroids = Inr c"
    and c_lt: "c < length clusters"
    and rest: "assign_loop vs centroids (clusters[c := clusters ! c @ [v]]) = Inr clusters'"
    by (auto split: sum.splits if_splits)
  from Cons.IH [OF rest] have len: "length clusters' = length clusters"
    and all: "\<forall>v\<in>set vs. \<exists>c<length clusters. closest_centroid v centroids = Inr c"
    and each: "\<forall>j<length clusters. clusters' ! j
         = (clusters[c := clusters ! c @ [v]]) ! j @ filter (\<lambda>v. closest_centroid v centroids = Inr j) vs"
    by simp_all
  have "\<forall>j<length clusters.
      clusters' ! j = clusters ! j @ filter (\<lambda>v. closest_centroid v centroids = Inr j) (v # vs)"
  proof (intro allI impI)
    fix j assume j: "j < length clusters"
    show "clusters' ! j = clusters ! j @ filter (\<lambda>v. closest_centroid v centroids = Inr j) (v # vs)"
      using each j c c_lt by (cases "j = c") auto
  qed
  with len all c c_lt show ?case by auto
qed



lemma assign_clusters_nonempty_bucket:
  assumes "assign_clusters vectors centroids = Inr clusters" and "vectors \<noteq> []"
  shows "\<exists>j<length centroids. clusters ! j \<noteq> []"
proof -
  from assms(1)
  have r: "assign_loop vectors centroids (replicate (length centroids) []) = Inr clusters"
    by (simp add: assign_clusters_def)
  from assms(2) obtain v where v: "v \<in> set vectors" by (cases vectors) auto
  with assign_loop_result [OF r] obtain c where c: "c < length centroids"
    and cv: "closest_centroid v centroids = Inr c"
    and "clusters ! c = filter (\<lambda>v. closest_centroid v centroids = Inr c) vectors"
    by auto
  with v have "v \<in> set (clusters ! c)" by simp
  with c show ?thesis by auto
qed

subsection \<open>Update\<close>

lemma add_point_result:
  "add_point acc p = Inr r \<Longrightarrow> r = map (\<lambda>i. acc ! i + p ! i) [0..<length acc]"
  by (simp add: add_point_def split: if_splits)

lemma sum_points_result:
  "sum_points acc points = Inr r \<Longrightarrow>
     r = map (\<lambda>i. acc ! i + (\<Sum>p\<leftarrow>points. p ! i)) [0..<length acc]"
proof (induction points arbitrary: acc)
  case Nil
  then show ?case by (simp add: map_nth)
next
  case (Cons p ps)
  from Cons.prems obtain acc' where acc': "add_point acc p = Inr acc'"
    and rest: "sum_points acc' ps = Inr r"
    by (auto split: sum.splits)
  from add_point_result [OF acc'] have a: "acc' = map (\<lambda>i. acc ! i + p ! i) [0..<length acc]" .
  then have len: "length acc' = length acc" by simp
  from Cons.IH [OF rest] have "r = map (\<lambda>i. acc' ! i + (\<Sum>p\<leftarrow>ps. p ! i)) [0..<length acc]"
    using len by simp
  also have "\<dots> = map (\<lambda>i. acc ! i + (\<Sum>p\<leftarrow>p # ps. p ! i)) [0..<length acc]"
    using a by (intro map_cong) (simp_all add: add.assoc)
  finally show ?case .
qed


lemma mapE_py_div:
  "0 < n \<Longrightarrow> mapE (\<lambda>x. py_div x n) xs = Inr (map (\<lambda>x. x / real n) xs)"
  by (intro mapE_Inr) (simp add: py_div_def)

lemma cluster_mean_result:
  assumes "cluster_mean members = Inr nc"
  shows "members \<noteq> []" and "nc = arithmetic_mean members"
proof -
  from assms obtain p ps where m: "members = p # ps" by (cases members) simp_all
  then show "members \<noteq> []" by simp
  from assms m obtain totals where t: "sum_points (replicate (length p) 0) (p # ps) = Inr totals"
    and nc: "mapE (\<lambda>x. py_div x (length (p # ps))) totals = Inr nc"
    by (auto split: sum.splits)
  from sum_points_result [OF t]
  have totals: "totals = map (\<lambda>i. \<Sum>q\<leftarrow>p # ps. q ! i) [0..<length p]"
    by simp
  from nc have "nc = map (\<lambda>x. x / real (length (p # ps))) totals"
    using mapE_py_div [of "length (p # ps)" totals] by simp
  with totals m show "nc = arithmetic_mean members"
    by (simp add: arithmetic_mean_def comp_def)
qed


lemma length_arithmetic_mean [simp]: "length (arithmetic_mean members) = length (hd members)"
  by (simp add: arithmetic_mean_def)

lemma update_loop_result:
  "update_loop js clusters centroids eps new flag = Inr (new', flag') \<Longrightarrow>
     new' = new @ map (\<lambda>j. if clusters ! j \<noteq> [] then arithmetic_mean (clusters ! j)
                              else centroids ! j) js
     \<and> flag' = (flag \<and> (\<forall>j\<in>set js. clusters ! j \<noteq> [] \<longrightarrow>
                   \<not> eps < distance_value (centroids ! j) (arithmetic_mean (clusters ! j))))
     \<and> (\<forall>j\<in>set js. clusters ! j \<noteq> [] \<longrightarrow>
           euclidean_distance (centroids ! j) (arithmetic_mean (clusters ! j))
             = Inr (distance_value (centroids ! j) (arithmetic_mean (clusters ! j))))"
proof (induction js arbitrary: new flag)
  case Nil
  then show ?case by simp
next
  case (Cons j js)
  show ?case
  proof (cases "clusters ! j = []")
    case True
    with Cons.prems have "update_loop js clusters centroids eps (new @ [centroids ! j]) flag
        = Inr (new', flag')"
      by (simp split: if_splits)
    from Cons.IH [OF this] True show ?thesis by simp
  next
    case False
    with Cons.prems obtain nc d where nc: "cluster_mean (clusters ! j) = Inr nc"
      and d: "euclidean_distance (centroids ! j) nc = Inr d"
      and rest: "update_loop js clusters centroids eps (new @ [nc])
                   (if eps < d then False else flag) = Inr (new', flag')"
      by (auto split: if_splits sum.splits)
    from cluster_mean_result(2) [OF nc] have nc_eq: "nc = arithmetic_mean (clusters ! j)" .
    from euclidean_distance_result [OF d] have d_eq: "d = distance_value (centroids ! j) nc" .
    from Cons.IH [OF rest] False nc_eq d_eq d show ?thesis by auto
  qed
qed


lemma update_centroids_result:
  assumes "update_centroids clusters centroids eps = Inr (new, flag)"
  shows "length new = length centroids"
    and "\<forall>j<length centroids.
           new ! j = (if clusters ! j \<noteq> [] then arithmetic_mean (clusters ! j) else centroids ! j)"
    and "flag = (\<forall>j<length centroids. clusters ! j \<noteq> [] \<longrightarrow>
                   \<not> eps < distance_value (centroids ! j) (new ! j))"
    and "\<forall>j<length centroids. clusters ! j \<noteq> [] \<longrightarrow>
           euclidean_distance (centroids ! j) (new ! j)
             = Inr (distance_value (centroids ! j) (new ! j))"
proof -
  from assms
  have r: "update_loop [0..<length centroids] clusters centroids eps [] True = Inr (new, flag)"
    by (simp add: update_centroids_def)
  note u = update_loop_result [OF r]
  from u show len: "length new = length centroids" by simp
  from u show each: "\<forall>j<length centroids.
      new ! j = (if clusters ! j \<noteq> [] then arithmetic_mean (clusters ! j) else centroids ! j)"
    by simp
  from u each show "flag = (\<forall>j<length centroids. clusters ! j \<noteq> [] \<longrightarrow>
                   \<not> eps < distance_value (centroids ! j) (new ! j))"
    by auto
  from u each show "\<forall>j<length centroids. clusters ! j \<noteq> [] \<longrightarrow>
           euclidean_distance (centroids ! j) (new ! j)
             = Inr (distance_value (centroids ! j) (new ! j))"
    by auto
qed


subsection \<open>The loop\<close>








section \<open>Command-line arguments and input validation\<close>

text \<open>
  Claim C1 says that \<open>k = "3.0"\<close> and \<open>max_iter = "42.0000"\<close> are accepted as 3 and
  42 and that the run succeeds with exit status zero. The program converts both
  arguments with \<open>int\<close>, which raises \<open>ValueError\<close> on a string with a decimal point:
  whatever the input is, the run prints the generic notice and ends with exit status 1,
  both when the two parameters are the only arguments (as the repository's tester passes
  them) and when a file name follows them.
\<close>

theorem float_looking_parameters_rejected:
  "py_int ''3.0'' = None \<and> py_int ''42.0000'' = None
   \<and> main e [''3.0'', ''42.0000''] = Inr (1, [Notice GenericError])
   \<and> main e [''3.0'', ''42.0000'', f] = Inr (1, [Notice GenericError])
   \<and> main e [''3'', ''42.0000'', f] = Inr (1, [Notice GenericError])"
  by (simp add: main_def parse_command_line_args_def int_eval MIN_K_def)

text \<open>
  Claim C2, as stated, says that a supplied \<open>max_iter\<close> is accepted exactly when
  \<open>1 \<le> max_iter < 1000\<close>. The value 1 is inside that range and is rejected with the
  iteration-count notice.
\<close>

theorem max_iter_one_rejected:
  "py_int ''1'' = Some 1 \<and> (1::int) \<le> 1 \<and> (1::int) < 1000
   \<and> parse_command_line_args [''3'', ''1'', ''input.txt''] = Inl InvalidIteration"
  by (simp add: parse_command_line_args_def int_eval MIN_K_def MIN_ITER_def)

text \<open>
  Claim C2, amended: with a valid \<open>k\<close>, an integer \<open>max_iter\<close> supplied as the second
  of three arguments is accepted exactly when \<open>1 < max_iter < 1000\<close> and rejected with
  the iteration-count notice otherwise; with one or two arguments \<open>max_iter\<close> is the
  default 400.
\<close>

theorem max_iter_accepted_range:
  assumes "py_int a0 = Some k" and "1 < k"
  shows "(py_int a1 = Some m \<longrightarrow>
            parse_command_line_args [a0, a1, a2] =
              (if 1 < m \<and> m < 1000 then Inr (k, m, Some a2) else Inl InvalidIteration))
         \<and> parse_command_line_args [a0] = Inr (k, 400, None)
         \<and> parse_command_line_args [a0, a1] = Inr (k, 400, Some a1)"
  using assms
  by (auto simp: parse_command_line_args_def MIN_K_def MIN_ITER_def MAX_ITER_def DEFAULT_ITER_def)

theorem max_iter_accepted_range_witness:
  "parse_command_line_args [''3'', ''2'', ''input.txt''] = Inr (3, 2, Some ''input.txt'')
   \<and> parse_command_line_args [''3'', ''999'', ''input.txt''] = Inr (3, 999, Some ''input.txt'')
   \<and> parse_command_line_args [''3'', ''1000'', ''input.txt''] = Inl InvalidIteration
   \<and> parse_command_line_args [''3''] = Inr (3, 400, None)"
proof -
  have m2: "py_int ''2'' = Some 2" by (simp add: int_eval)
  have m999: "py_int ''999'' = Some 999" by (simp add: int_eval)
  have m1000: "py_int ''1000'' = Some 1000" by (simp add: int_eval)
  show ?thesis
    using max_iter_accepted_range [OF py_int_3, of "''2''" 2 "''input.txt''"]
      max_iter_accepted_range [OF py_int_3, of "''999''" 999 "''input.txt''"]
      max_iter_accepted_range [OF py_int_3, of "''1000''" 1000 "''input.txt''"]
      m2 m999 m1000
    by simp
qed



text \<open>
  Claim C6, as stated, says that a \<open>k\<close> that parses and is at least the number of input
  vectors always ends the run with the invalid-cluster-count notice. The dimensions of the
  vectors are validated before \<open>k\<close> is compared with their number: with the two rows
  \<open>1,2\<close> and \<open>3\<close> on standard input and \<open>k = 5\<close>, the run prints the generic notice.
\<close>

theorem ragged_input_generic_notice:
  "py_int ''5'' = Some 5
   \<and> read_vectors (example_env [''1,2'', ''3'']) None = Some [[1, 2], [3]]
   \<and> int (length [[1, 2], [3 :: real]]) \<le> 5
   \<and> main (example_env [''1,2'', ''3'']) [''5''] = Inr (1, [Notice GenericError])"
  by (simp add: main_def parse_command_line_args_def read_eval MIN_K_def
      kmeans_clustering_def validate_vector_dimensions_def)

text \<open>
  Claim C6, amended: if \<open>k\<close> is not parseable as a whole number, the run prints the
  generic notice; if \<open>k\<close> parses and \<open>k \<le> 1\<close>, it prints the invalid-cluster-count
  notice; if the arguments are accepted, the vectors are read and \<open>k\<close> is at least their
  number, it prints the invalid-cluster-count notice when the vectors have equal
  dimensions and the generic notice when they have not. A rejected argument list and an
  input that cannot be read are reported before that, each with its own notice. In each
  of these cases the exit status is 1 and the notice is the only line printed, so no
  centroid is printed.
\<close>

theorem invalid_k_rejected:
  "(args \<noteq> [] \<and> py_int (args ! 0) = None \<longrightarrow>
      main e args = Inr (1, [Notice GenericError]))
   \<and> (args \<noteq> [] \<and> py_int (args ! 0) = Some k \<and> k \<le> 1 \<longrightarrow>
      main e args = Inr (1, [Notice InvalidClusters]))
   \<and> (parse_command_line_args args = Inl n \<longrightarrow> main e args = Inr (1, [Notice n]))
   \<and> (parse_command_line_args args = Inr (k, max_iter, file_arg)
        \<and> read_vectors e file_arg = None \<longrightarrow>
      main e args = Inr (1, [Notice GenericError]))
   \<and> (parse_command_line_args args = Inr (k, max_iter, file_arg)
        \<and> read_vectors e file_arg = Some vectors \<and> int (length vectors) \<le> k \<longrightarrow>
      py_int (args ! 0) = Some k
      \<and> main e args =
          Inr (1, [Notice (if validate_vector_dimensions vectors then InvalidClusters
                           else GenericError)]))"
proof (intro conjI impI)
  assume "args \<noteq> [] \<and> py_int (args ! 0) = None"
  then show "main e args = Inr (1, [Notice GenericError])"
    by (simp add: main_def parse_command_line_args_def)
next
  assume "args \<noteq> [] \<and> py_int (args ! 0) = Some k \<and> k \<le> 1"
  then show "main e args = Inr (1, [Notice InvalidClusters])"
    by (simp add: main_def parse_command_line_args_def MIN_K_def)
next
  assume "parse_command_line_args args = Inl n"
  then show "main e args = Inr (1, [Notice n])"
    by (simp add: main_def)
next
  assume "parse_command_line_args args = Inr (k, max_iter, file_arg)
        \<and> read_vectors e file_arg = None"
  then show "main e args = Inr (1, [Notice GenericError])"
    by (simp add: main_def)
next
  assume a: "parse_command_line_args args = Inr (k, max_iter, file_arg)
        \<and> read_vectors e file_arg = Some vectors \<and> int (length vectors) \<le> k"
  then show "py_int (args ! 0) = Some k" using parse_Inr by blast
  from a show "main e args =
          Inr (1, [Notice (if validate_vector_dimensions vectors then InvalidClusters
                           else GenericError)])"
    by (simp add: main_def kmeans_clustering_def initialize_centroids_def)
qed

theorem invalid_k_rejected_witness:
  "main (example_env [''1'', ''2'', ''3'']) [''abc''] = Inr (1, [Notice GenericError])
   \<and> main (example_env [''1'', ''2'', ''3'']) [''1''] = Inr (1, [Notice InvalidClusters])
   \<and> read_vectors (example_env [''1'', ''2'', ''3'']) None = Some [[1], [2], [3]]
   \<and> main (example_env [''1'', ''2'', ''3'']) [''3''] = Inr (1, [Notice InvalidClusters])"
proof -
  have p: "py_int ''abc'' = None" "py_int ''1'' = Some 1"
    by (simp_all add: int_eval)
  have q: "parse_command_line_args [''3''] = Inr (3, 400, None)"
    by (simp add: parse_command_line_args_def int_eval MIN_K_def DEFAULT_ITER_def)
  have r: "read_vectors (example_env [''1'', ''2'', ''3'']) None = Some [[1], [2], [3]]"
    by (simp add: read_eval)
  have v: "validate_vector_dimensions [[1], [2], [3]]"
    by (simp add: validate_vector_dimensions_def)
  show ?thesis
    using invalid_k_rejected [where args = "[''abc'']" and e = "example_env [''1'', ''2'', ''3'']"]
      invalid_k_rejected [where args = "[''1'']" and e = "example_env [''1'', ''2'', ''3'']"
        and k = 1]
      invalid_k_rejected [where args = "[''3'']" and e = "example_env [''1'', ''2'', ''3'']"
        and k = 3 and max_iter = 400 and file_arg = None and vectors = "[[1], [2], [3]]"]
      p q r v
    by simp
qed

section \<open>The assigner\<close>

text \<open>
  Claim C3: when several centroids are at the same, minimal distance from a vector, the
  vector goes to the one with the smallest index. Stated for any index \<open>i\<close> that is at
  minimal distance and is the first index at that distance (any number of later centroids
  may be at the same distance): the vector is put into bucket \<open>i\<close> and into no other
  bucket. The distances compared are the values that \<open>euclidean_distance\<close> returned.
\<close>

theorem assign_tie_break:
  assumes "assign_clusters vectors centroids = Inr clusters"
    and "v \<in> set vectors" and "i < length centroids"
    and "\<forall>j<length centroids.
           distance_value v (centroids ! i) \<le> distance_value v (centroids ! j)"
    and "\<forall>j<i. distance_value v (centroids ! j) \<noteq> distance_value v (centroids ! i)"
  shows "(\<forall>j<length centroids.
            euclidean_distance v (centroids ! j) = Inr (distance_value v (centroids ! j)))
         \<and> v \<in> set (clusters ! i)
         \<and> (\<forall>j<length centroids. j \<noteq> i \<longrightarrow> v \<notin> set (clusters ! j))"
proof -
  from assms(1)
  have r: "assign_loop vectors centroids (replicate (length centroids) []) = Inr clusters"
    by (simp add: assign_clusters_def)
  from assign_loop_result [OF r] assms(2)
  obtain c where c: "closest_centroid v centroids = Inr c"
    and each: "\<forall>j<length centroids.
        clusters ! j = filter (\<lambda>v. closest_centroid v centroids = Inr j) vectors"
    by auto
  from closest_centroid_unique [OF c assms(3) assms(4) assms(5)] have ci: "c = i" .
  have "v \<in> set (clusters ! i)"
    using each assms(2,3) c ci by simp
  moreover have "\<forall>j<length centroids. j \<noteq> i \<longrightarrow> v \<notin> set (clusters ! j)"
    using each c ci by simp
  ultimately show ?thesis
    using closest_centroid_result(2) [OF c] by simp
qed

theorem assign_tie_break_witness:
  "assign_clusters [[1], [5]] [[0], [2], [2]] = Inr [[[1]], [[5]], []]
   \<and> distance_value [1] [0] = distance_value [1] [2]
   \<and> distance_value [5] [2] < distance_value [5] [0]
   \<and> [1::real] \<in> set ([[[1]], [[5]], []] ! 0) \<and> [1::real] \<notin> set ([[[1]], [[5]], []] ! 1)
   \<and> [5::real] \<in> set ([[[1]], [[5]], []] ! 1) \<and> [5::real] \<notin> set ([[[1]], [[5]], []] ! 2)"
proof -
  have a: "assign_clusters [[1], [5]] [[0], [2], [2]] = Inr [[[1]], [[5]], []]"
    by (simp add: engine_eval)
  have d: "distance_value [1] [0] = 1" "distance_value [1] [2] = 1"
    "distance_value [5] [0] = 5" "distance_value [5] [2] = 3"
    by (simp_all add: distance_value_def)
  show ?thesis
    using assign_tie_break [OF a, of "[1]" 0] assign_tie_break [OF a, of "[5]" 1] a d
    by (simp add: All_less_Suc numeral_3_eq_3)
qed

section \<open>The centroid updater\<close>



text \<open>
  Claim C5: the returned flag is false exactly when at some cluster index the Euclidean
  distance between the old and the new centroid is strictly greater than \<open>eps\<close>; a
  distance equal to \<open>eps\<close> leaves the flag true. This holds for the update step of every
  loop iteration over a non-empty vector set, and for \<open>update_centroids\<close> on its own
  whenever \<open>eps\<close> is not negative or some bucket is non-empty. The default value of
  \<open>eps\<close> is 0.001.
\<close>

theorem converged_flag_iff:
  "(update_centroids clusters centroids eps = Inr (new_centroids, flag)
      \<and> (0 \<le> eps \<or> (\<exists>j<length centroids. clusters ! j \<noteq> [])) \<longrightarrow>
    (\<not> flag) =
      (\<exists>j<length centroids.
         \<exists>d. euclidean_distance (centroids ! j) (new_centroids ! j) = Inr d \<and> eps < d))
   \<and> (vectors \<noteq> [] \<and> loop_body vectors eps s = Inr s' \<longrightarrow>
    (\<not> converged s') =
      (\<exists>j<length (cur_centroids s).
         \<exists>d. euclidean_distance (cur_centroids s ! j) (cur_centroids s' ! j) = Inr d \<and> eps < d))
   \<and> DEFAULT_EPS = 1 / 1000"
proof -
  have step: "(\<not> flag) =
      (\<exists>j<length centroids.
         \<exists>d. euclidean_distance (centroids ! j) (new ! j) = Inr d \<and> eps < d)"
    if u: "update_centroids clusters centroids eps = Inr (new, flag)"
      and h: "0 \<le> eps \<or> (\<exists>j<length centroids. clusters ! j \<noteq> [])"
    for clusters centroids new flag
  proof -
    note r = update_centroids_result [OF u]
    have moved: "(\<not> flag) =
           (\<exists>j<length centroids. clusters ! j \<noteq> []
              \<and> (\<exists>d. euclidean_distance (centroids ! j) (new ! j) = Inr d \<and> eps < d))"
      using r(3) r(4) by auto
    show ?thesis
    proof (cases "0 \<le> eps")
      case True
      have "\<not> (\<exists>d. euclidean_distance (centroids ! j) (new ! j) = Inr d \<and> eps < d)"
        if "j < length centroids" and "clusters ! j = []" for j
        using that r(2) True by (simp add: euclidean_distance_self)
      with moved show ?thesis by blast
    next
      case False
      with h obtain j where j: "j < length centroids" and ne: "clusters ! j \<noteq> []" by blast
      have "0 \<le> distance_value (centroids ! j) (new ! j)"
        by (rule distance_value_nonneg)
      with False have "eps < distance_value (centroids ! j) (new ! j)" by simp
      with j ne r(4) moved show ?thesis by auto
    qed
  qed
  have "(\<not> converged s') =
      (\<exists>j<length (cur_centroids s).
         \<exists>d. euclidean_distance (cur_centroids s ! j) (cur_centroids s' ! j) = Inr d \<and> eps < d)"
    if ne: "vectors \<noteq> []" and b: "loop_body vectors eps s = Inr s'"
  proof -
    from b obtain cl new flag where a: "assign_clusters vectors (cur_centroids s) = Inr cl"
      and u: "update_centroids cl (cur_centroids s) eps = Inr (new, flag)"
      and s': "converged s' = flag" "cur_centroids s' = new"
      by (auto simp: loop_body_def split: sum.splits prod.splits)
    from assign_clusters_nonempty_bucket [OF a ne] step [OF u] s' show ?thesis by simp
  qed
  with step [of clusters centroids new_centroids flag] show ?thesis
    by (simp add: DEFAULT_EPS_def)
qed

theorem converged_flag_iff_witness:
  "update_centroids [[[1], [2]], [], [[5]]] [[1], [3], [5]] (1 / 2)
     = Inr ([[3 / 2], [3], [5]], True)
   \<and> euclidean_distance [1] [3 / 2] = Inr (1 / 2)
   \<and> update_centroids [[[1], [3]], [], [[5]]] [[1], [3], [5]] (1 / 2)
     = Inr ([[2], [3], [5]], False)
   \<and> euclidean_distance [1] [2] = Inr 1"
proof -
  have a: "update_centroids [[[1], [2]], [], [[5]]] [[1], [3], [5]] (1 / 2)
     = Inr ([[3 / 2], [3], [5]], True)"
    by (simp add: engine_eval)
  have b: "update_centroids [[[1], [3]], [], [[5]]] [[1], [3], [5]] (1 / 2)
     = Inr ([[2], [3], [5]], False)"
    by (simp add: engine_eval)
  have e: "(0::real) \<le> 1 / 2" by simp
  show ?thesis
    using converged_flag_iff [of "[[[1], [2]], [], [[5]]]" "[[1], [3], [5]]" "1 / 2"
        "[[3 / 2], [3], [5]]" True]
      converged_flag_iff [of "[[[1], [3]], [], [[5]]]" "[[1], [3], [5]]" "1 / 2"
        "[[2], [3], [5]]" False] a b e
    by (simp add: euclidean_distance_def distance_value_def)
qed

section \<open>The clustering engine\<close>







end
